theory Spec2Isabelle
  imports Main "HOL-Library.AList"
begin

section \<open>Python values, dictionaries and exceptions\<close>

text \<open>
  The values that travel through the wrapper are JSON-like Python objects: filter values,
  query parameters, request bodies and parsed responses. A dictionary keeps its insertion
  order, so it is an association list; \<open>AList.update\<close> is Python's \<^verbatim>\<open>d[k] = v\<close>
  (replace in place, or append a new key).
\<close>

datatype pyval =
    PNone
  | PBool bool
  | PInt int
  | PStr string
  | PList "pyval list"
  | PTuple "pyval list"
  | PDict "(string \<times> pyval) list"

type_synonym pydict = "(string \<times> pyval) list"

datatype error =
    ValueError string
  | AttributeError string
  | TypeError string
  | HTTPError int
  | RequestException
  | JSONDecodeError
  | SystemExit

text \<open>Truthiness, as \<^verbatim>\<open>not x\<close> and \<^verbatim>\<open>x or y\<close> test it.\<close>

fun truthy :: "pyval \<Rightarrow> bool" where
  "truthy PNone = False"
| "truthy (PBool b) = b"
| "truthy (PInt i) = (i \<noteq> 0)"
| "truthy (PStr s) = (s \<noteq> [])"
| "truthy (PList xs) = (xs \<noteq> [])"
| "truthy (PTuple xs) = (xs \<noteq> [])"
| "truthy (PDict d) = (d \<noteq> [])"

text \<open>\<^verbatim>\<open>d.update(e)\<close>: the entries of \<open>e\<close> are stored one after the other.\<close>

definition dict_update :: "('k \<times> 'v) list \<Rightarrow> ('k \<times> 'v) list \<Rightarrow> ('k \<times> 'v) list" where
  "dict_update d e = fold (\<lambda>(k, v) acc. AList.update k v acc) e d"

text \<open>\<^verbatim>\<open>', '.join(xs)\<close>\<close>

fun join :: "string \<Rightarrow> string list \<Rightarrow> string" where
  "join sep [] = []"
| "join sep [x] = x"
| "join sep (x # y # ys) = x @ sep @ join sep (y # ys)"

subsection \<open>json.dumps\<close>

text \<open>
  The encoder of Python's \<^verbatim>\<open>json\<close> module with its default settings, on the values
  above: \<^verbatim>\<open>", "\<close> and \<^verbatim>\<open>": "\<close> as separators, keys in insertion order, a tuple
  written as a list, and
  \<^verbatim>\<open>ensure_ascii\<close>, which escapes the quote, the backslash and every character
  outside the range from the space to the tilde. A \<open>char\<close> is read as a code point
  below 256.
\<close>

definition hex_digit :: "nat \<Rightarrow> char" where
  "hex_digit n = ''0123456789abcdef'' ! (n mod 16)"

fun decimal :: "nat \<Rightarrow> string" where
  "decimal n = (if n < 10 then [hex_digit n] else decimal (n div 10) @ [hex_digit (n mod 10)])"

definition int_str :: "int \<Rightarrow> string" where
  "int_str i = (if i < 0 then ''-'' @ decimal (nat (- i)) else decimal (nat i))"

definition escape_char :: "char \<Rightarrow> string" where
  "escape_char ch =
     (if ch = CHR 0x22 then [CHR 0x5C, CHR 0x22]
      else if ch = CHR 0x5C then [CHR 0x5C, CHR 0x5C]
      else if ch = CHR 0x0A then [CHR 0x5C, CHR ''n'']
      else if ch = CHR 0x0D then [CHR 0x5C, CHR ''r'']
      else if ch = CHR 0x09 then [CHR 0x5C, CHR ''t'']
      else if ch = CHR 0x0C then [CHR 0x5C, CHR ''f'']
      else if ch = CHR 0x08 then [CHR 0x5C, CHR ''b'']
      else if of_char ch < (0x20 :: nat) \<or> (0x7E :: nat) < of_char ch
      then [CHR 0x5C, CHR ''u'', CHR ''0'', CHR ''0'',
            hex_digit (of_char ch div 16), hex_digit (of_char ch mod 16)]
      else [ch])"

definition encode_str :: "string \<Rightarrow> string" where
  "encode_str s = [CHR 0x22] @ concat (map escape_char s) @ [CHR 0x22]"

primrec json_dumps :: "pyval \<Rightarrow> string" where
  "json_dumps PNone = ''null''"
| "json_dumps (PBool b) = (if b then ''true'' else ''false'')"
| "json_dumps (PInt i) = int_str i"
| "json_dumps (PStr s) = encode_str s"
| "json_dumps (PList xs) = ''['' @ join '', '' (map json_dumps xs) @ '']''"
| "json_dumps (PTuple xs) = ''['' @ join '', '' (map json_dumps xs) @ '']''"
| "json_dumps (PDict d) =
     ''{'' @ join '', '' (map (\<lambda>kv. encode_str (fst kv) @ '': '' @ snd kv)
                               (map (map_prod id json_dumps) d)) @ ''}''"

section \<open>filters.py\<close>

subsection \<open>Filter\<close>

definition OPERATOR_MAP :: "(string \<times> string) list" where
  "OPERATOR_MAP =
    [(''equals'', ''=''),
     (''lessThan'', ''<''),
     (''greaterThan'', ''>''),
     (''lessThanOrEquals'', ''<=''),
     (''greaterThanOrEquals'', ''>=''),
     (''notEquals'', ''!=''),
     (''contains'', ''contains''),
     (''notContains'', ''notcontains'')]"

definition VALID_OPERATORS :: "string list" where
  "VALID_OPERATORS = map fst OPERATOR_MAP"

record Filter_obj =
  property :: string
  operator :: string
  val :: "pyval list"

text \<open>A name between single quotes, as the f-strings of the messages print it.\<close>

definition quoted :: "string \<Rightarrow> string" where
  "quoted s = [CHR 0x27] @ s @ [CHR 0x27]"

definition invalid_operator_msg :: "string \<Rightarrow> string" where
  "invalid_operator_msg op =
     ''Invalid operator '' @ quoted op @ ''. '' @
     ''Must be one of: '' @ join '', '' VALID_OPERATORS"

text \<open>
  \<^verbatim>\<open>Filter.__init__\<close>. The field \<^verbatim>\<open>value\<close> is \<open>val\<close> here. The test
  \<^verbatim>\<open>isinstance(value, list)\<close> holds of the constructor \<open>PList\<close> alone: a tuple, a
  string or a dictionary is wrapped like any other object that is not a list.
\<close>

fun isinstance_list :: "pyval \<Rightarrow> bool" where
  "isinstance_list (PList xs) = True"
| "isinstance_list _ = False"

definition Filter_init :: "string \<Rightarrow> string \<Rightarrow> pyval \<Rightarrow> error + Filter_obj" where
  "Filter_init prop op v =
     (if op \<notin> set VALID_OPERATORS then Inl (ValueError (invalid_operator_msg op))
      else Inr \<lparr>property = prop, operator = op,
                val = (case v of PList xs \<Rightarrow> xs | _ \<Rightarrow> [v])\<rparr>)"

text \<open>\<^verbatim>\<open>OPERATOR_MAP.get(self.operator, self.operator)\<close>\<close>

definition api_operator :: "Filter_obj \<Rightarrow> string" where
  "api_operator f =
     (case map_of OPERATOR_MAP (operator f) of None \<Rightarrow> operator f | Some tok \<Rightarrow> tok)"

definition to_dict :: "Filter_obj \<Rightarrow> pydict" where
  "to_dict f =
     [(''property'', PStr (property f)),
      (''operator'', PStr (api_operator f)),
      (''value'', PList (val f))]"

text \<open>\<^verbatim>\<open>Filter.__str__\<close>\<close>

definition Filter_str :: "Filter_obj \<Rightarrow> string" where
  "Filter_str f = json_dumps (PDict (to_dict f))"

subsection \<open>FilterBuilder\<close>

record FilterBuilder =
  filters :: "Filter_obj list"
  fb_operator :: string

text \<open>
  \<^verbatim>\<open>FilterBuilder.__init__\<close>. The builder's attribute \<^verbatim>\<open>operator\<close> is the field
  \<open>fb_operator\<close>, since \<open>operator\<close> already names the field of a filter.
\<close>

definition FilterBuilder_init :: "string \<Rightarrow> error + FilterBuilder" where
  "FilterBuilder_init op =
     (if op \<notin> set [''AND'', ''OR'']
      then Inl (ValueError (''Operator must be '' @ quoted ''AND'' @ '' or '' @ quoted ''OR''))
      else Inr \<lparr>filters = [], fb_operator = op\<rparr>)"

definition add :: "FilterBuilder \<Rightarrow> string \<Rightarrow> string \<Rightarrow> pyval \<Rightarrow> error + FilterBuilder" where
  "add fb prop op v =
     (case Filter_init prop op v of
        Inl e \<Rightarrow> Inl e
      | Inr f \<Rightarrow> Inr (fb\<lparr>filters := filters fb @ [f]\<rparr>))"

definition contains :: "FilterBuilder \<Rightarrow> string \<Rightarrow> pyval \<Rightarrow> error + FilterBuilder" where
  "contains fb prop v = add fb prop ''contains'' v"

definition equals :: "FilterBuilder \<Rightarrow> string \<Rightarrow> pyval \<Rightarrow> error + FilterBuilder" where
  "equals fb prop v = add fb prop ''equals'' v"

definition not_contains :: "FilterBuilder \<Rightarrow> string \<Rightarrow> pyval \<Rightarrow> error + FilterBuilder" where
  "not_contains fb prop v = add fb prop ''notContains'' v"

definition not_equals :: "FilterBuilder \<Rightarrow> string \<Rightarrow> pyval \<Rightarrow> error + FilterBuilder" where
  "not_equals fb prop v = add fb prop ''notEquals'' v"

definition greater_than :: "FilterBuilder \<Rightarrow> string \<Rightarrow> pyval \<Rightarrow> error + FilterBuilder" where
  "greater_than fb prop v = add fb prop ''greaterThan'' v"

definition less_than :: "FilterBuilder \<Rightarrow> string \<Rightarrow> pyval \<Rightarrow> error + FilterBuilder" where
  "less_than fb prop v = add fb prop ''lessThan'' v"

definition greater_than_or_equals :: "FilterBuilder \<Rightarrow> string \<Rightarrow> pyval \<Rightarrow> error + FilterBuilder" where
  "greater_than_or_equals fb prop v = add fb prop ''greaterThanOrEquals'' v"

definition less_than_or_equals :: "FilterBuilder \<Rightarrow> string \<Rightarrow> pyval \<Rightarrow> error + FilterBuilder" where
  "less_than_or_equals fb prop v = add fb prop ''lessThanOrEquals'' v"

definition to_params :: "FilterBuilder \<Rightarrow> pydict" where
  "to_params fb =
     (if filters fb = [] then []
      else [(''operator'', PStr (fb_operator fb)),
            (''filter'', PList (map (\<lambda>f. PStr (Filter_str f)) (filters fb)))])"

section \<open>cv_cue_client.py\<close>

subsection \<open>The world outside the client\<close>

text \<open>
  One call of \<^verbatim>\<open>requests.Session.request\<close>: the HTTP method, the URL and the keyword
  arguments the wrapper uses. \<open>None\<close> is a keyword that is not passed.
\<close>

record http_request =
  http_method :: string
  url :: string
  params :: "pydict option"
  json :: "pyval option"
  headers :: "(string \<times> string) list option"

text \<open>
  What comes back: the status code, the body as \<^verbatim>\<open>response.json()\<close> parses it
  (\<open>None\<close> when it is not JSON and the call raises), and the cookies the response sets.
\<close>

record response =
  status_code :: int
  body :: "pyval option"
  set_cookies :: "(string \<times> string) list"

text \<open>
  What the session file holds, by what \<^verbatim>\<open>pickle.load\<close> and the
  \<^verbatim>\<open>cookies.update\<close> that follows it do with it:
  \<^item> \<open>Pickled cs\<close>: a pickled cookie jar; the update stores its cookies;
  \<^item> \<open>Partial cs\<close>: a pickle of an object that is not a jar, such as the list
    \<^verbatim>\<open>[('a', '1'), 5]\<close>: the update stores the cookies \<open>cs\<close> and then raises;
  \<^item> \<open>Corrupt s\<close>: bytes on which \<^verbatim>\<open>pickle.load\<close> raises an \<^verbatim>\<open>Exception\<close>;
  \<^item> \<open>Exits\<close>: a pickle whose loading raises \<^verbatim>\<open>SystemExit\<close>, which is not an
    \<^verbatim>\<open>Exception\<close>.
\<close>

datatype blob =
    Pickled "(string \<times> string) list"
  | Partial "(string \<times> string) list"
  | Corrupt string
  | Exits

datatype fs_op = OpRead | OpWrite | OpUnlink

text \<open>
  The world: the state of the server, the requests sent so far, the files by path, and
  the operations on a path that the operating system refuses (they raise
  \<^verbatim>\<open>OSError\<close>).
\<close>

record 'n world =
  peer :: 'n
  sent :: "http_request list"
  files :: "(string \<times> blob) list"
  denied :: "(fs_op \<times> string) list"

definition refused :: "'n world \<Rightarrow> fs_op \<Rightarrow> string \<Rightarrow> bool" where
  "refused w op path = ((op, path) \<in> set (denied w))"

text \<open>
  A server answers a request from its state, or the transport fails (\<open>None\<close>: a
  \<^verbatim>\<open>requests.exceptions.RequestException\<close> such as a refused connection or a timeout).
\<close>

type_synonym 'n server = "'n \<Rightarrow> http_request \<Rightarrow> response option \<times> 'n"

record client =
  key_id :: string
  key_value :: string
  client_id :: string
  base_url :: string
  session_file :: string
  cookies :: "(string \<times> string) list"

text \<open>
  \<^verbatim>\<open>self.session.request(method, url, **kwargs)\<close>: the request goes out, and the
  session's cookie jar takes the cookies of the response.
\<close>

definition session_request ::
  "'n server \<Rightarrow> client \<Rightarrow> 'n world \<Rightarrow> http_request \<Rightarrow> (error + response) \<times> client \<times> 'n world" where
  "session_request net c w req =
     (case net (peer w) req of
        (None, n') \<Rightarrow> (Inl RequestException, c, w\<lparr>peer := n', sent := sent w @ [req]\<rparr>)
      | (Some resp, n') \<Rightarrow>
          (Inr resp,
           c\<lparr>cookies := dict_update (cookies c) (set_cookies resp)\<rparr>,
           w\<lparr>peer := n', sent := sent w @ [req]\<rparr>))"

text \<open>
  \<^verbatim>\<open>response.raise_for_status()\<close> of the requests library raises
  \<^verbatim>\<open>HTTPError\<close> for the status codes 400 to 599 and for no other.
\<close>

definition raise_for_status :: "response \<Rightarrow> error + unit" where
  "raise_for_status resp =
     (if 400 \<le> status_code resp \<and> status_code resp < 600
      then Inl (HTTPError (status_code resp)) else Inr ())"

subsection \<open>CVCueClient\<close>

text \<open>\<^verbatim>\<open>CVCueClient.request\<close>; its \<^verbatim>\<open>**kwargs\<close> are the last three arguments.\<close>

definition request ::
  "'n server \<Rightarrow> client \<Rightarrow> 'n world \<Rightarrow> string \<Rightarrow> string \<Rightarrow>
   pydict option \<Rightarrow> pyval option \<Rightarrow> (string \<times> string) list option \<Rightarrow>
   (error + pyval) \<times> client \<times> 'n world" where
  "request net c w meth path kw_params kw_json kw_headers =
     (let url = base_url c @ path;
          kw_headers' =
            (if kw_headers = None \<and> \<not> (case kw_json of None \<Rightarrow> False | Some j \<Rightarrow> truthy j)
             then Some [(''Content-Type'', ''application/json'')]
             else kw_headers)
      in case session_request net c w
                \<lparr>http_method = meth, url = url, params = kw_params, json = kw_json,
                 headers = kw_headers'\<rparr> of
           (Inl e, c', w') \<Rightarrow> (Inl e, c', w')
         | (Inr resp, c', w') \<Rightarrow>
             (case raise_for_status resp of
                Inl e \<Rightarrow> (Inl e, c', w')
              | Inr _ \<Rightarrow>
                  (case body resp of
                     None \<Rightarrow> (Inl JSONDecodeError, c', w')
                   | Some j \<Rightarrow> (Inr j, c', w'))))"

text \<open>\<^verbatim>\<open>s.lstrip('/')\<close> and \<^verbatim>\<open>s.rstrip('/')\<close>\<close>

definition lstrip_slash :: "string \<Rightarrow> string" where
  "lstrip_slash s = dropWhile (\<lambda>ch. ch = CHR ''/'') s"

definition rstrip_slash :: "string \<Rightarrow> string" where
  "rstrip_slash s = rev (dropWhile (\<lambda>ch. ch = CHR ''/'') (rev s))"

text \<open>
  \<^verbatim>\<open>CVCueClient._make_request\<close>: both handlers log the exception and raise it again,
  so the result is the one of \<open>request\<close>.
\<close>

definition make_request ::
  "'n server \<Rightarrow> client \<Rightarrow> 'n world \<Rightarrow> string \<Rightarrow> string \<Rightarrow> pydict option \<Rightarrow> pydict option \<Rightarrow>
   (error + pyval) \<times> client \<times> 'n world" where
  "make_request net c w meth endpoint data prms =
     (let path = ''/'' @ lstrip_slash endpoint
      in request net c w meth path prms (map_option PDict data) None)"

text \<open>
  \<^verbatim>\<open>CVCueClient._load_session\<close>. The handler of \<^verbatim>\<open>except Exception\<close> tries to
  delete the file and ignores a failure of the deletion; it runs after the cookies that
  the update has stored so far are in the jar. \<^verbatim>\<open>SystemExit\<close> passes the handler by.
\<close>

definition unlink_quietly :: "'n world \<Rightarrow> string \<Rightarrow> 'n world" where
  "unlink_quietly w path =
     (if refused w OpUnlink path then w else w\<lparr>files := AList.delete path (files w)\<rparr>)"

definition load_session :: "client \<Rightarrow> 'n world \<Rightarrow> (error + client) \<times> 'n world" where
  "load_session c w =
     (let path = session_file c
      in case map_of (files w) path of
           None \<Rightarrow> (Inr c, w)
         | Some b \<Rightarrow>
             (if refused w OpRead path then (Inr c, unlink_quietly w path)
              else case b of
                     Corrupt _ \<Rightarrow> (Inr c, unlink_quietly w path)
                   | Exits \<Rightarrow> (Inl SystemExit, w)
                   | Partial cs \<Rightarrow>
                       (Inr (c\<lparr>cookies := dict_update (cookies c) cs\<rparr>),
                        unlink_quietly w path)
                   | Pickled cs \<Rightarrow> (Inr (c\<lparr>cookies := dict_update (cookies c) cs\<rparr>), w)))"

text \<open>\<^verbatim>\<open>CVCueClient._save_session\<close>: a failure is logged, not raised.\<close>

definition save_session :: "client \<Rightarrow> 'n world \<Rightarrow> 'n world" where
  "save_session c w =
     (if refused w OpWrite (session_file c) then w
      else w\<lparr>files := AList.update (session_file c) (Pickled (cookies c)) (files w)\<rparr>)"

text \<open>\<^verbatim>\<open>CVCueClient.clear_session\<close>\<close>

definition clear_session :: "client \<Rightarrow> 'n world \<Rightarrow> 'n world" where
  "clear_session c w =
     (case map_of (files w) (session_file c) of
        None \<Rightarrow> w
      | Some _ \<Rightarrow>
          (if refused w OpUnlink (session_file c) then w
           else w\<lparr>files := AList.delete (session_file c) (files w)\<rparr>))"

text \<open>
  \<^verbatim>\<open>a or b\<close> on an optional string, and \<^verbatim>\<open>not a\<close>: \<^verbatim>\<open>None\<close> and the empty
  string are false.
\<close>

definition py_or :: "string option \<Rightarrow> string option \<Rightarrow> string option" where
  "py_or a b = (case a of None \<Rightarrow> b | Some s \<Rightarrow> if s = [] then b else a)"

definition py_not :: "string option \<Rightarrow> bool" where
  "py_not a = (case a of None \<Rightarrow> True | Some s \<Rightarrow> s = [])"

definition missing_msg :: "string \<Rightarrow> string \<Rightarrow> string" where
  "missing_msg what var = what @ '' must be provided or set in '' @ var @ '' environment variable''"

text \<open>
  \<^verbatim>\<open>CVCueClient.__init__\<close>, with the environment \<open>env\<close> that \<^verbatim>\<open>os.getenv\<close> reads
  (\<open>getenv\<close>).
  Nothing checks \<^verbatim>\<open>base_url\<close> before \<^verbatim>\<open>self.base_url.rstrip('/')\<close>, which raises
  \<^verbatim>\<open>AttributeError\<close> on \<^verbatim>\<open>None\<close>.
\<close>

definition getenv :: "(string \<times> string) list \<Rightarrow> string \<Rightarrow> string option" where
  "getenv env name = map_of env name"

definition CVCueClient_init ::
  "(string \<times> string) list \<Rightarrow> string option \<Rightarrow> string option \<Rightarrow> string option \<Rightarrow>
   string option \<Rightarrow> string option \<Rightarrow> 'n world \<Rightarrow> (error + client) \<times> 'n world" where
  "CVCueClient_init env a_key_id a_key_value a_client_id a_base_url a_session_file w =
     (let kid = py_or a_key_id (getenv env ''CV_CUE_KEY_ID'');
          kval = py_or a_key_value (getenv env ''CV_CUE_KEY_VALUE'');
          cid = py_or a_client_id (getenv env ''CV_CUE_CLIENT_ID'');
          burl = py_or a_base_url (getenv env ''CV_CUE_BASE_URL'');
          sfile = (case a_session_file of None \<Rightarrow> ''.session'' | Some p \<Rightarrow> p)
      in if py_not kid
         then (Inl (ValueError (missing_msg ''CV-CUE API key ID'' ''CV_CUE_KEY_ID'')), w)
         else if py_not kval
         then (Inl (ValueError (missing_msg ''CV-CUE API key value'' ''CV_CUE_KEY_VALUE'')), w)
         else if py_not cid
         then (Inl (ValueError (missing_msg ''CV-CUE client ID'' ''CV_CUE_CLIENT_ID'')), w)
         else case burl of
                None \<Rightarrow>
                  (Inl (AttributeError
                     (quoted ''NoneType'' @ '' object has no attribute '' @ quoted ''rstrip'')), w)
              | Some b \<Rightarrow>
                  (case load_session
                          \<lparr>key_id = (case kid of None \<Rightarrow> [] | Some s \<Rightarrow> s),
                           key_value = (case kval of None \<Rightarrow> [] | Some s \<Rightarrow> s),
                           client_id = (case cid of None \<Rightarrow> [] | Some s \<Rightarrow> s),
                           base_url = rstrip_slash b,
                           session_file = sfile,
                           cookies = []\<rparr> w of
                     (Inl e, w') \<Rightarrow> (Inl e, w')
                   | (Inr c, w') \<Rightarrow> (Inr c, w')))"

text \<open>
  \<^verbatim>\<open>name in self.session.cookies\<close>. \<^verbatim>\<open>RequestsCookieJar.__contains__\<close> looks the
  name up with \<^verbatim>\<open>_find_no_duplicates\<close>: no cookie of that name is \<^verbatim>\<open>KeyError\<close>,
  hence false; one cookie counts only when its value is not empty
  (\<^verbatim>\<open>if toReturn: return toReturn\<close>, else \<^verbatim>\<open>KeyError\<close>); several cookies of that name
  raise \<^verbatim>\<open>CookieConflictError\<close>, which \<^verbatim>\<open>__contains__\<close> turns into true.
\<close>

definition jar_contains :: "(string \<times> string) list \<Rightarrow> string \<Rightarrow> bool" where
  "jar_contains jar name =
     (case filter (\<lambda>kv. fst kv = name) jar of
        [] \<Rightarrow> False
      | [kv] \<Rightarrow> snd kv \<noteq> []
      | _ \<Rightarrow> True)"

text \<open>\<^verbatim>\<open>CVCueClient.is_session_active\<close>: only a \<^verbatim>\<open>RequestException\<close> is caught.\<close>

definition is_session_active ::
  "'n server \<Rightarrow> client \<Rightarrow> 'n world \<Rightarrow> (error + bool) \<times> client \<times> 'n world" where
  "is_session_active net c w =
     (if \<not> jar_contains (cookies c) ''JSESSIONID'' then (Inr False, c, w)
      else case session_request net c w
                  \<lparr>http_method = ''GET'', url = base_url c @ ''/session'', params = None,
                   json = None, headers = None\<rparr> of
             (Inr resp, c', w') \<Rightarrow>
               (if status_code resp = 200 then (Inr True, c', w') else (Inr False, c', w'))
           | (Inl e, c', w') \<Rightarrow>
               (if e = RequestException then (Inr False, c', w') else (Inl e, c', w')))"

text \<open>\<^verbatim>\<open>CVCueClient.login\<close>\<close>

definition login_data :: "client \<Rightarrow> pydict" where
  "login_data c =
     [(''type'', PStr ''apiKeyCredentials''),
      (''keyId'', PStr (key_id c)),
      (''keyValue'', PStr (key_value c)),
      (''clientIdentifier'', PStr (client_id c)),
      (''timeout'', PInt 300)]"

definition login :: "'n server \<Rightarrow> client \<Rightarrow> 'n world \<Rightarrow> (error + pyval) \<times> client \<times> 'n world" where
  "login net c w =
     (case make_request net c w ''POST'' ''session'' (Some (login_data c)) None of
        (Inl e, c', w') \<Rightarrow> (Inl e, c', w')
      | (Inr resp, c', w') \<Rightarrow> (Inr resp, c', save_session c' w'))"

section \<open>resources: base.py and managed_devices.py\<close>

text \<open>\<^verbatim>\<open>BaseResource._request\<close> hands its arguments to \<^verbatim>\<open>client.request\<close>.\<close>

definition resource_request ::
  "'n server \<Rightarrow> client \<Rightarrow> 'n world \<Rightarrow> string \<Rightarrow> string \<Rightarrow>
   pydict option \<Rightarrow> pyval option \<Rightarrow> (string \<times> string) list option \<Rightarrow>
   (error + pyval) \<times> client \<times> 'n world" where
  "resource_request net c w meth path kw_params kw_json kw_headers =
     request net c w meth path kw_params kw_json kw_headers"

text \<open>The \<^verbatim>\<open>filters\<close> argument: a \<^verbatim>\<open>FilterBuilder\<close> or a list of filters.\<close>

datatype filters_arg = Builder FilterBuilder | FilterList "Filter_obj list"

text \<open>
  The arguments of \<^verbatim>\<open>list_aps\<close>. Python checks no type hint, and the values only
  travel into the query parameters, so they are Python values; the two integers that
  \<^verbatim>\<open>get_all_aps\<close> computes with are integers.
\<close>

record list_aps_args =
  startindex :: int
  pagesize :: int
  totalcountrequired :: pyval
  locationid :: pyval
  sortby :: pyval
  ascending :: pyval
  fetchradios :: pyval
  populatemeshinfo :: pyval
  populatewiredinterfaces :: pyval
  filters_opt :: "filters_arg option"
  filter_operator :: string
  kwargs :: pydict

text \<open>The defaults of the signature of \<^verbatim>\<open>list_aps\<close>.\<close>

definition list_aps_defaults :: list_aps_args where
  "list_aps_defaults =
     \<lparr>startindex = 0, pagesize = 10, totalcountrequired = PBool False, locationid = PNone,
      sortby = PStr ''boxid'', ascending = PBool True, fetchradios = PBool True,
      populatemeshinfo = PBool False, populatewiredinterfaces = PBool False,
      filters_opt = None, filter_operator = ''AND'', kwargs = []\<rparr>"

text \<open>The query parameters that \<^verbatim>\<open>list_aps\<close> builds.\<close>

definition list_aps_params :: "list_aps_args \<Rightarrow> pydict" where
  "list_aps_params a =
     (let p0 = [(''startindex'', PInt (startindex a)),
                (''pagesize'', PInt (pagesize a)),
                (''totalcountrequired'', totalcountrequired a),
                (''sortby'', sortby a),
                (''ascending'', ascending a),
                (''fetchradios'', fetchradios a),
                (''populatemeshinfo'', populatemeshinfo a),
                (''populatewiredinterfaces'', populatewiredinterfaces a)];
          p1 = (if locationid a \<noteq> PNone then AList.update ''locationid'' (locationid a) p0
                else p0);
          p2 = (case filters_opt a of
                  None \<Rightarrow> p1
                | Some (Builder fb) \<Rightarrow> dict_update p1 (to_params fb)
                | Some (FilterList fs) \<Rightarrow>
                    AList.update ''operator'' (PStr (filter_operator a))
                      (AList.update ''filter''
                         (PList (map (\<lambda>f. PStr (Filter_str f)) fs)) p1))
      in dict_update p2 (kwargs a))"

definition list_aps ::
  "'n server \<Rightarrow> client \<Rightarrow> 'n world \<Rightarrow> list_aps_args \<Rightarrow>
   (error + pyval) \<times> client \<times> 'n world" where
  "list_aps net c w a =
     resource_request net c w ''GET'' ''/manageddevices/aps''
       (Some (list_aps_params a)) None (Some [(''Version'', ''19'')])"

text \<open>
  \<^verbatim>\<open>response.get("managedDevices", [])\<close>: only a dictionary has \<^verbatim>\<open>get\<close>.
\<close>

definition get_managedDevices :: "pyval \<Rightarrow> error + pyval" where
  "get_managedDevices resp =
     (case resp of
        PDict d \<Rightarrow> (case map_of d ''managedDevices'' of None \<Rightarrow> Inr (PList []) | Some v \<Rightarrow> Inr v)
      | _ \<Rightarrow> Inl (AttributeError ''get''))"

text \<open>
  The items that \<^verbatim>\<open>all_devices.extend(devices)\<close> appends: the elements of a list or
  of a tuple, the characters of a string, the keys of a dictionary; anything else is not iterable.
  \<^verbatim>\<open>len(devices)\<close> is their number.
\<close>

definition py_items :: "pyval \<Rightarrow> error + pyval list" where
  "py_items v =
     (case v of
        PList xs \<Rightarrow> Inr xs
      | PTuple xs \<Rightarrow> Inr xs
      | PStr s \<Rightarrow> Inr (map (\<lambda>ch. PStr [ch]) s)
      | PDict d \<Rightarrow> Inr (map (\<lambda>kv. PStr (fst kv)) d)
      | _ \<Rightarrow> Inl (TypeError ''object is not iterable''))"

text \<open>
  The call \<^verbatim>\<open>self.list_aps(startindex=..., pagesize=..., totalcountrequired=False,
  filters=..., filter_operator=..., **kwargs)\<close> of \<^verbatim>\<open>get_all_aps\<close>: Python binds a
  keyword of \<^verbatim>\<open>kwargs\<close> to the parameter of that name, raises \<^verbatim>\<open>TypeError\<close> when
  the call already passes it, and leaves the others in the \<^verbatim>\<open>kwargs\<close> of
  \<^verbatim>\<open>list_aps\<close>.
\<close>

definition kw_get :: "pydict \<Rightarrow> string \<Rightarrow> pyval \<Rightarrow> pyval" where
  "kw_get kw k dflt = (case map_of kw k of None \<Rightarrow> dflt | Some v \<Rightarrow> v)"

definition bound_names :: "string list" where
  "bound_names =
     [''locationid'', ''sortby'', ''ascending'', ''fetchradios'', ''populatemeshinfo'',
      ''populatewiredinterfaces'']"

definition bind_list_aps ::
  "int \<Rightarrow> int \<Rightarrow> filters_arg option \<Rightarrow> string \<Rightarrow> pydict \<Rightarrow> error + list_aps_args" where
  "bind_list_aps si ps fs fop kw =
     (if ''startindex'' \<in> set (map fst kw)
      then Inl (TypeError ''got multiple values for keyword argument startindex'')
      else if ''totalcountrequired'' \<in> set (map fst kw)
      then Inl (TypeError ''got multiple values for keyword argument totalcountrequired'')
      else Inr \<lparr>startindex = si, pagesize = ps, totalcountrequired = PBool False,
                locationid = kw_get kw ''locationid'' (locationid list_aps_defaults),
                sortby = kw_get kw ''sortby'' (sortby list_aps_defaults),
                ascending = kw_get kw ''ascending'' (ascending list_aps_defaults),
                fetchradios = kw_get kw ''fetchradios'' (fetchradios list_aps_defaults),
                populatemeshinfo =
                  kw_get kw ''populatemeshinfo'' (populatemeshinfo list_aps_defaults),
                populatewiredinterfaces =
                  kw_get kw ''populatewiredinterfaces''
                    (populatewiredinterfaces list_aps_defaults),
                filters_opt = fs, filter_operator = fop,
                kwargs = filter (\<lambda>kv. fst kv \<notin> set bound_names) kw\<rparr>)"

text \<open>
  The \<^verbatim>\<open>while True\<close> loop of \<^verbatim>\<open>get_all_aps\<close>, with its two variables
  \<^verbatim>\<open>all_devices\<close> and \<^verbatim>\<open>startindex\<close>. The loop has no bound of its own: against a
  server that always fills the page it never returns, which is the value \<open>None\<close>.
\<close>

partial_function (option) get_all_aps_loop ::
  "'n server \<Rightarrow> int \<Rightarrow> filters_arg option \<Rightarrow> string \<Rightarrow> pydict \<Rightarrow>
   pyval list \<Rightarrow> int \<Rightarrow> client \<Rightarrow> 'n world \<Rightarrow>
   ((error + pyval list) \<times> client \<times> 'n world) option" where
  "get_all_aps_loop net ps fs fop kw all_devices si c w =
     (case bind_list_aps si ps fs fop kw of
        Inl e \<Rightarrow> Some (Inl e, c, w)
      | Inr a \<Rightarrow>
          (case list_aps net c w a of
             (Inl e, c', w') \<Rightarrow> Some (Inl e, c', w')
           | (Inr resp, c', w') \<Rightarrow>
               (case get_managedDevices resp of
                  Inl e \<Rightarrow> Some (Inl e, c', w')
                | Inr devices \<Rightarrow>
                    (if \<not> truthy devices then Some (Inr all_devices, c', w')
                     else case py_items devices of
                            Inl e \<Rightarrow> Some (Inl e, c', w')
                          | Inr items \<Rightarrow>
                              (if int (length items) < ps
                               then Some (Inr (all_devices @ items), c', w')
                               else get_all_aps_loop net ps fs fop kw
                                      (all_devices @ items) (si + ps) c' w')))))"

definition get_all_aps ::
  "'n server \<Rightarrow> client \<Rightarrow> 'n world \<Rightarrow>
   int \<Rightarrow> filters_arg option \<Rightarrow> string \<Rightarrow> pydict \<Rightarrow>
   ((error + pyval list) \<times> client \<times> 'n world) option" where
  "get_all_aps net c w ps fs fop kw = get_all_aps_loop net ps fs fop kw [] 0 c w"

section \<open>Callers and servers used to state the properties\<close>

text \<open>
  The chain \<^verbatim>\<open>fb.add(p1, op1, v1).add(p2, op2, v2)...\<close> on a builder; the first
  invalid operator raises.
\<close>

fun add_all :: "FilterBuilder \<Rightarrow> (string \<times> string \<times> pyval) list \<Rightarrow> error + FilterBuilder" where
  "add_all fb [] = Inr fb"
| "add_all fb ((prop, op, v) # rest) =
     (case add fb prop op v of Inl e \<Rightarrow> Inl e | Inr fb' \<Rightarrow> add_all fb' rest)"

text \<open>
  A server that plays a script, as the mocks of the test suite do: each request takes the
  next response, and the transport fails once the script is over.
\<close>

definition scripted :: "response list server" where
  "scripted rs req = (case rs of [] \<Rightarrow> (None, []) | r # rs' \<Rightarrow> (Some r, rs'))"

text \<open>
  A page of the device list: a response with a status, a JSON object that holds the
  items under \<^verbatim>\<open>managedDevices\<close> beside any other keys (\<^verbatim>\<open>totalCount\<close>,
  \<^verbatim>\<open>pagingSessionId\<close>, ...), and the cookies it sets.
\<close>

record page_data =
  page_status :: int
  page_extra :: pydict
  page_items :: "pyval list"
  page_cookies :: "(string \<times> string) list"

definition page :: "page_data \<Rightarrow> response" where
  "page p =
     \<lparr>status_code = page_status p,
      body = Some (PDict (AList.update ''managedDevices'' (PList (page_items p)) (page_extra p))),
      set_cookies = page_cookies p\<rparr>"

text \<open>The request that \<^verbatim>\<open>list_aps\<close> sends for a base URL and given arguments.\<close>

definition list_aps_request :: "string \<Rightarrow> list_aps_args \<Rightarrow> http_request" where
  "list_aps_request base a =
     \<lparr>http_method = ''GET'', url = base @ ''/manageddevices/aps'',
      params = Some (list_aps_params a), json = None,
      headers = Some [(''Version'', ''19'')]\<rparr>"

text \<open>The value of a query parameter of a request.\<close>

definition param :: "http_request \<Rightarrow> string \<Rightarrow> pyval option" where
  "param req k = (case params req of None \<Rightarrow> None | Some p \<Rightarrow> map_of p k)"


definition test_client :: client where
  "test_client =
     \<lparr>key_id = ''test-key-id'', key_value = ''test-key-value'', client_id = ''test-client'',
      base_url = ''https://test.api.com/api'', session_file = ''.session'', cookies = []\<rparr>"

definition test_world :: "response list \<Rightarrow> (string \<times> blob) list \<Rightarrow> response list world" where
  "test_world script fs = \<lparr>peer = script, sent = [], files = fs, denied = []\<rparr>"

text \<open>
  The arguments that \<^verbatim>\<open>list_aps\<close> receives from the loop of \<^verbatim>\<open>get_all_aps\<close> at a
  start index, written out: the start index, the page size, no total count, the filters
  and their operator as given, and the extra keywords, those that name a parameter of
  \<^verbatim>\<open>list_aps\<close> in its place and the others left as extra keywords.
\<close>

definition call_args :: "int \<Rightarrow> int \<Rightarrow> filters_arg option \<Rightarrow> string \<Rightarrow> pydict \<Rightarrow> list_aps_args" where
  "call_args si ps fs fop kw =
     \<lparr>startindex = si, pagesize = ps, totalcountrequired = PBool False,
      locationid = kw_get kw ''locationid'' PNone,
      sortby = kw_get kw ''sortby'' (PStr ''boxid''),
      ascending = kw_get kw ''ascending'' (PBool True),
      fetchradios = kw_get kw ''fetchradios'' (PBool True),
      populatemeshinfo = kw_get kw ''populatemeshinfo'' (PBool False),
      populatewiredinterfaces = kw_get kw ''populatewiredinterfaces'' (PBool False),
      filters_opt = fs, filter_operator = fop,
      kwargs =
        filter (\<lambda>kv. fst kv \<notin> set [''locationid'', ''sortby'', ''ascending'', ''fetchradios'',
                                    ''populatemeshinfo'', ''populatewiredinterfaces'']) kw\<rparr>"

text \<open>
  Devices as the test suite numbers them, the devices from \<open>m\<close> up to, not including,
  \<open>n\<close>, and the page that holds them beside the total count.
\<close>

definition device :: "nat \<Rightarrow> pyval" where
  "device i = PDict [(''boxid'', PInt (int i))]"

definition devices :: "nat \<Rightarrow> nat \<Rightarrow> pyval list" where
  "devices m n = map device [m..<n]"

definition test_page :: "nat \<Rightarrow> nat \<Rightarrow> page_data" where
  "test_page m n =
     \<lparr>page_status = 200, page_extra = [(''totalCount'', PInt 250)],
      page_items = devices m n, page_cookies = []\<rparr>"

section \<open>Properties of the filters\<close>

text \<open>
  C7, as amended. For every property and every valid operator: a list is kept as the
  filter's value, unchanged; every value that is not a list is wrapped in a one-element
  list, and that holds of the scalars and also of the sequences that are not lists, a
  tuple and a string.
\<close>

theorem Filter_value_is_list:
  "op \<in> set VALID_OPERATORS \<Longrightarrow>
   Filter_init p op (PList s) = Inr \<lparr>property = p, operator = op, val = s\<rparr> \<and>
   (\<not> isinstance_list v \<longrightarrow>
      Filter_init p op v = Inr \<lparr>property = p, operator = op, val = [v]\<rparr>) \<and>
   Filter_init p op (PTuple s) = Inr \<lparr>property = p, operator = op, val = [PTuple s]\<rparr> \<and>
   Filter_init p op (PStr t) = Inr \<lparr>property = p, operator = op, val = [PStr t]\<rparr>"
  by (cases v) (simp_all add: Filter_init_def)

theorem Filter_value_is_list_witness:
  "''contains'' \<in> set VALID_OPERATORS \<and> \<not> isinstance_list (PBool True) \<and>
   Filter_init ''model'' ''contains'' (PList [PStr ''AP-555'', PStr ''AP-635'']) =
     Inr \<lparr>property = ''model'', operator = ''contains'',
          val = [PStr ''AP-555'', PStr ''AP-635'']\<rparr> \<and>
   Filter_init ''model'' ''contains'' (PBool True) =
     Inr \<lparr>property = ''model'', operator = ''contains'', val = [PBool True]\<rparr> \<and>
   Filter_init ''model'' ''contains'' (PStr ''Arista'') =
     Inr \<lparr>property = ''model'', operator = ''contains'', val = [PStr ''Arista'']\<rparr>"
  using Filter_value_is_list
    [of "''contains''" "''model''" "[PStr ''AP-555'', PStr ''AP-635'']" "PBool True" "''Arista''"]
  by (simp add: VALID_OPERATORS_def OPERATOR_MAP_def)

theorem Filter_tuple_wrapped_counterexample:
  "Filter_init ''model'' ''contains'' (PTuple [PStr ''AP-555'', PStr ''AP-635'']) =
     Inr \<lparr>property = ''model'', operator = ''contains'',
          val = [PTuple [PStr ''AP-555'', PStr ''AP-635'']]\<rparr>"
  by (simp add: Filter_init_def VALID_OPERATORS_def OPERATOR_MAP_def)

text \<open>
  C5. Each of the eight friendly operator names builds a filter, directly and through
  \<^verbatim>\<open>FilterBuilder.add\<close>, whose dictionary carries the API token of the table under
  \<^verbatim>\<open>operator\<close>; any other name makes the construction fail with \<^verbatim>\<open>ValueError\<close>,
  the wrapper's invalid-operator error.
\<close>

theorem operator_tokens:
  "(\<forall>(name, tok) \<in> set [(''equals'', ''=''), (''lessThan'', ''<''), (''greaterThan'', ''>''),
        (''lessThanOrEquals'', ''<=''), (''greaterThanOrEquals'', ''>=''),
        (''notEquals'', ''!=''), (''contains'', ''contains''),
        (''notContains'', ''notcontains'')].
      \<exists>f. Filter_init p name v = Inr f \<and>
          map_of (to_dict f) ''operator'' = Some (PStr tok) \<and>
          add fb p name v = Inr (fb\<lparr>filters := filters fb @ [f]\<rparr>)) \<and>
   (op \<notin> set [''equals'', ''lessThan'', ''greaterThan'', ''lessThanOrEquals'',
        ''greaterThanOrEquals'', ''notEquals'', ''contains'', ''notContains''] \<longrightarrow>
      (\<exists>msg. Filter_init p op v = Inl (ValueError msg) \<and>
             add fb p op v = Inl (ValueError msg)))"
  by (simp add: Filter_init_def add_def to_dict_def api_operator_def
        VALID_OPERATORS_def OPERATOR_MAP_def)

theorem operator_tokens_witness:
  "''in'' \<notin> set [''equals'', ''lessThan'', ''greaterThan'', ''lessThanOrEquals'',
        ''greaterThanOrEquals'', ''notEquals'', ''contains'', ''notContains''] \<and>
   (\<exists>msg. Filter_init ''model'' ''in'' (PList [PStr ''AP-555'']) = Inl (ValueError msg)) \<and>
   (\<exists>f. Filter_init ''model'' ''lessThanOrEquals'' (PList [PStr ''AP-555'']) = Inr f \<and>
        map_of (to_dict f) ''operator'' = Some (PStr ''<=''))"
  using operator_tokens
    [of "''model''" "PList [PStr ''AP-555'']" "\<lparr>filters = [], fb_operator = ''AND''\<rparr>" "''in''"]
  by auto

lemma add_all_filters:
  "add_all fb calls = Inr fb' \<Longrightarrow>
   \<exists>fs. map (\<lambda>(p, op, v). Filter_init p op v) calls = map Inr fs \<and>
        fb' = fb\<lparr>filters := filters fb @ fs\<rparr>"
proof (induction fb calls arbitrary: fb' rule: add_all.induct)
  case (1 fb)
  then show ?case by simp
next
  case (2 fb pr opr v rest)
  from "2.prems" obtain f where f: "Filter_init pr opr v = Inr f"
    by (auto simp: add_def split: sum.splits)
  then have step: "add fb pr opr v = Inr (fb\<lparr>filters := filters fb @ [f]\<rparr>)"
    by (simp add: add_def)
  with "2.prems" have "add_all (fb\<lparr>filters := filters fb @ [f]\<rparr>) rest = Inr fb'"
    by simp
  from "2.IH" [OF step this] obtain fs where
    fs: "map (\<lambda>(p, op, v). Filter_init p op v) rest = map Inr fs"
        "fb' = fb\<lparr>filters := filters fb @ [f] @ fs\<rparr>"
    by auto
  show ?case
    by (rule exI [of _ "f # fs"]) (simp add: f fs)
qed

lemma Filter_str_of_calls:
  "map (\<lambda>(p, op, v). Filter_init p op v) calls = map Inr fs \<Longrightarrow>
   map (\<lambda>f. PStr (Filter_str f)) fs =
   map (\<lambda>(p, op, v).
          PStr (json_dumps (PDict
            [(''property'', PStr p),
             (''operator'',
              PStr (case map_of [(''equals'', ''=''), (''lessThan'', ''<''),
                                 (''greaterThan'', ''>''), (''lessThanOrEquals'', ''<=''),
                                 (''greaterThanOrEquals'', ''>=''), (''notEquals'', ''!=''),
                                 (''contains'', ''contains''),
                                 (''notContains'', ''notcontains'')] op of
                      None \<Rightarrow> op | Some tok \<Rightarrow> tok)),
             (''value'', PList (case v of PList xs \<Rightarrow> xs | _ \<Rightarrow> [v]))]))) calls"
proof (induction calls arbitrary: fs)
  case Nil
  then show ?case by simp
next
  case (Cons call calls)
  obtain p opr v where call: "call = (p, opr, v)"
    by (cases call) auto
  from Cons.prems obtain f fs' where fs: "fs = f # fs'"
    and f: "Filter_init p opr v = Inr f"
    and rest: "map (\<lambda>(p, op, v). Filter_init p op v) calls = map Inr fs'"
    by (cases fs) (auto simp: call)
  from f have "f = \<lparr>property = p, operator = opr,
                   val = (case v of PList xs \<Rightarrow> xs | _ \<Rightarrow> [v])\<rparr>"
    by (auto simp: Filter_init_def split: if_splits)
  then have "Filter_str f = json_dumps (PDict
            [(''property'', PStr p),
             (''operator'',
              PStr (case map_of [(''equals'', ''=''), (''lessThan'', ''<''),
                                 (''greaterThan'', ''>''), (''lessThanOrEquals'', ''<=''),
                                 (''greaterThanOrEquals'', ''>=''), (''notEquals'', ''!=''),
                                 (''contains'', ''contains''),
                                 (''notContains'', ''notcontains'')] opr of
                      None \<Rightarrow> opr | Some tok \<Rightarrow> tok)),
             (''value'', PList (case v of PList xs \<Rightarrow> xs | _ \<Rightarrow> [v]))])"
    by (simp only: Filter_str_def to_dict_def api_operator_def OPERATOR_MAP_def
          Filter_obj.simps)
  with Cons.IH [OF rest] show ?case
    by (simp only: fs call list.map prod.case)
qed

text \<open>
  C6. A builder made with a logical operator and filled by a chain of \<^verbatim>\<open>add\<close> calls:
  with no call, \<^verbatim>\<open>to_params\<close> returns the empty dictionary; with \<open>N \<ge> 1\<close> calls it
  returns exactly two keys, \<^verbatim>\<open>operator\<close> with the builder's logical operator and
  \<^verbatim>\<open>filter\<close> with \<open>N\<close> strings in the order of the calls, each the JSON text of
  the call's property, the API token of its operator and its value as a list.
\<close>

theorem to_params_of_builder:
  assumes "FilterBuilder_init lop = Inr fb0" and "add_all fb0 calls = Inr fb"
  shows "to_params fb =
     (if calls = [] then []
      else [(''operator'', PStr lop),
            (''filter'',
             PList (map (\<lambda>(p, op, v).
               PStr (json_dumps (PDict
                 [(''property'', PStr p),
                  (''operator'',
                   PStr (case map_of [(''equals'', ''=''), (''lessThan'', ''<''),
                                      (''greaterThan'', ''>''), (''lessThanOrEquals'', ''<=''),
                                      (''greaterThanOrEquals'', ''>=''), (''notEquals'', ''!=''),
                                      (''contains'', ''contains''),
                                      (''notContains'', ''notcontains'')] op of
                           None \<Rightarrow> op | Some tok \<Rightarrow> tok)),
                  (''value'', PList (case v of PList xs \<Rightarrow> xs | _ \<Rightarrow> [v]))]))) calls))])"
proof -
  from assms(1) have fb0: "fb0 = \<lparr>filters = [], fb_operator = lop\<rparr>"
    by (auto simp: FilterBuilder_init_def split: if_splits)
  from add_all_filters [OF assms(2)] obtain fs where
    fs: "map (\<lambda>(p, op, v). Filter_init p op v) calls = map Inr fs"
        "fb = fb0\<lparr>filters := filters fb0 @ fs\<rparr>"
    by auto
  from fs(1) have "length calls = length fs"
    by (metis length_map)
  then have empty: "calls = [] \<longleftrightarrow> fs = []" by auto
  have "to_params fb =
          (if calls = [] then []
           else [(''operator'', PStr lop),
                 (''filter'', PList (map (\<lambda>f. PStr (Filter_str f)) fs))])"
    by (simp add: to_params_def fs(2) fb0 empty)
  then show ?thesis
    by (simp only: Filter_str_of_calls [OF fs(1)])
qed

theorem to_params_of_builder_witness:
  \<open>FilterBuilder_init ''OR'' = Inr \<lparr>filters = [], fb_operator = ''OR''\<rparr> \<and>
   add_all \<lparr>filters = [], fb_operator = ''OR''\<rparr>
       [(''name'', ''contains'', PStr ''Arista''), (''active'', ''equals'', PBool True)] =
     Inr \<lparr>filters = [\<lparr>property = ''name'', operator = ''contains'', val = [PStr ''Arista'']\<rparr>,
                     \<lparr>property = ''active'', operator = ''equals'', val = [PBool True]\<rparr>],
          fb_operator = ''OR''\<rparr> \<and>
   to_params \<lparr>filters = [\<lparr>property = ''name'', operator = ''contains'', val = [PStr ''Arista'']\<rparr>,
                     \<lparr>property = ''active'', operator = ''equals'', val = [PBool True]\<rparr>],
          fb_operator = ''OR''\<rparr> =
     [(''operator'', PStr ''OR''),
      (''filter'',
       PList [PStr ''{"property": "name", "operator": "contains", "value": ["Arista"]}'',
              PStr ''{"property": "active", "operator": "=", "value": [true]}''])]\<close>
proof -
  have a: "FilterBuilder_init ''OR'' = Inr \<lparr>filters = [], fb_operator = ''OR''\<rparr>"
    by (simp add: FilterBuilder_init_def)
  have b: "add_all \<lparr>filters = [], fb_operator = ''OR''\<rparr>
       [(''name'', ''contains'', PStr ''Arista''), (''active'', ''equals'', PBool True)] =
     Inr \<lparr>filters = [\<lparr>property = ''name'', operator = ''contains'', val = [PStr ''Arista'']\<rparr>,
                     \<lparr>property = ''active'', operator = ''equals'', val = [PBool True]\<rparr>],
          fb_operator = ''OR''\<rparr>"
    by (simp add: add_def Filter_init_def VALID_OPERATORS_def OPERATOR_MAP_def)
  from to_params_of_builder [OF a b] a b show ?thesis
    by (simp add: encode_str_def escape_char_def)
qed

section \<open>Properties of the client and of the device list\<close>

lemma dict_update_Nil [simp]: "dict_update d [] = d"
  by (simp add: dict_update_def)

lemma map_of_dict_update_other:
  "k \<notin> fst ` set e \<Longrightarrow> map_of (dict_update d e) k = map_of d k"
  unfolding dict_update_def
  by (induction e arbitrary: d) (auto simp: update_conv')

text \<open>
  C2, as amended. When the jar holds no \<^verbatim>\<open>JSESSIONID\<close> cookie, or holds one whose
  value is empty, \<^verbatim>\<open>is_session_active\<close> returns false and leaves the world as it is:
  no request is sent. When it holds one with a value that is not empty (or several of
  that name), one request is sent, the GET probe of the session endpoint, and the result
  is true exactly when the server answers with status 200; any other status and a failure
  of the transport give false, and no exception reaches the caller.
\<close>

theorem is_session_active_probe:
  "((map snd (filter (\<lambda>kv. fst kv = ''JSESSIONID'') (cookies c)) = [] \<or>
     map snd (filter (\<lambda>kv. fst kv = ''JSESSIONID'') (cookies c)) = [[]]) \<longrightarrow>
      is_session_active net c w = (Inr False, c, w)) \<and>
   ((map snd (filter (\<lambda>kv. fst kv = ''JSESSIONID'') (cookies c)) \<noteq> [] \<and>
     map snd (filter (\<lambda>kv. fst kv = ''JSESSIONID'') (cookies c)) \<noteq> [[]]) \<longrightarrow>
      (\<exists>c' w'. is_session_active net c w =
                 (Inr (case fst (net (peer w)
                         \<lparr>http_method = ''GET'', url = base_url c @ ''/session'',
                          params = None, json = None, headers = None\<rparr>) of
                         None \<Rightarrow> False
                       | Some r \<Rightarrow> status_code r = 200), c', w') \<and>
               sent w' = sent w @
                 [\<lparr>http_method = ''GET'', url = base_url c @ ''/session'',
                   params = None, json = None, headers = None\<rparr>]))"
proof -
  have jar: "jar_contains (cookies c) ''JSESSIONID'' \<longleftrightarrow>
      map snd (filter (\<lambda>kv. fst kv = ''JSESSIONID'') (cookies c)) \<noteq> [] \<and>
      map snd (filter (\<lambda>kv. fst kv = ''JSESSIONID'') (cookies c)) \<noteq> [[]]"
    by (auto simp: jar_contains_def split: list.splits)
  show ?thesis
    unfolding jar [symmetric]
    by (auto simp: is_session_active_def session_request_def jar_contains_def
          split: prod.splits option.splits list.splits)
qed

theorem is_session_active_probe_witness:
  "map snd (filter (\<lambda>kv. fst kv = ''JSESSIONID'') (cookies test_client)) = [] \<and>
   is_session_active scripted test_client
       (test_world [\<lparr>status_code = 200, body = None, set_cookies = []\<rparr>] []) =
     (Inr False, test_client,
      test_world [\<lparr>status_code = 200, body = None, set_cookies = []\<rparr>] []) \<and>
   map snd (filter (\<lambda>kv. fst kv = ''JSESSIONID'')
     (cookies (test_client\<lparr>cookies := [(''JSESSIONID'', ''abc'')]\<rparr>))) = [''abc''] \<and>
   fst (is_session_active scripted (test_client\<lparr>cookies := [(''JSESSIONID'', ''abc'')]\<rparr>)
          (test_world [\<lparr>status_code = 401, body = None, set_cookies = []\<rparr>] [])) = Inr False \<and>
   fst (is_session_active scripted (test_client\<lparr>cookies := [(''JSESSIONID'', ''abc'')]\<rparr>)
          (test_world [\<lparr>status_code = 200, body = None, set_cookies = []\<rparr>] [])) = Inr True \<and>
   fst (is_session_active scripted (test_client\<lparr>cookies := [(''JSESSIONID'', ''abc'')]\<rparr>)
          (test_world [] [])) = Inr False \<and>
   sent (snd (snd (is_session_active scripted
          (test_client\<lparr>cookies := [(''JSESSIONID'', ''abc'')]\<rparr>)
          (test_world [\<lparr>status_code = 200, body = None, set_cookies = []\<rparr>] [])))) =
     [\<lparr>http_method = ''GET'', url = ''https://test.api.com/api/session'',
       params = None, json = None, headers = None\<rparr>]"
  using is_session_active_probe [of test_client scripted
      "test_world [\<lparr>status_code = 200, body = None, set_cookies = []\<rparr>] []"]
    is_session_active_probe [of "test_client\<lparr>cookies := [(''JSESSIONID'', ''abc'')]\<rparr>" scripted
      "test_world [\<lparr>status_code = 401, body = None, set_cookies = []\<rparr>] []"]
    is_session_active_probe [of "test_client\<lparr>cookies := [(''JSESSIONID'', ''abc'')]\<rparr>" scripted
      "test_world [\<lparr>status_code = 200, body = None, set_cookies = []\<rparr>] []"]
    is_session_active_probe [of "test_client\<lparr>cookies := [(''JSESSIONID'', ''abc'')]\<rparr>" scripted
      "test_world [] []"]
  by (auto simp: test_client_def test_world_def scripted_def)

theorem empty_session_cookie_counterexample:
  "is_session_active scripted (test_client\<lparr>cookies := [(''JSESSIONID'', [])]\<rparr>)
       (test_world [\<lparr>status_code = 200, body = None, set_cookies = []\<rparr>] []) =
     (Inr False, test_client\<lparr>cookies := [(''JSESSIONID'', [])]\<rparr>,
      test_world [\<lparr>status_code = 200, body = None, set_cookies = []\<rparr>] [])"
  by (simp add: is_session_active_def jar_contains_def test_client_def)




lemma request_cases:
  "request net c w meth path kp kj kh =
     (let req = \<lparr>http_method = meth, url = base_url c @ path, params = kp, json = kj,
                 headers = (if kh = None \<and> \<not> (case kj of None \<Rightarrow> False | Some j \<Rightarrow> truthy j)
                            then Some [(''Content-Type'', ''application/json'')] else kh)\<rparr>;
          w' = w\<lparr>peer := snd (net (peer w) req), sent := sent w @ [req]\<rparr>
      in case fst (net (peer w) req) of
           None \<Rightarrow> (Inl RequestException, c, w')
         | Some r \<Rightarrow>
             (if 400 \<le> status_code r \<and> status_code r < 600 then Inl (HTTPError (status_code r))
              else (case body r of None \<Rightarrow> Inl JSONDecodeError | Some j \<Rightarrow> Inr j),
              c\<lparr>cookies := dict_update (cookies c) (set_cookies r)\<rparr>, w'))"
  by (simp add: request_def session_request_def raise_for_status_def Let_def
        split: prod.splits option.splits)

lemma login_cases:
  "login net c w =
     (let req = \<lparr>http_method = ''POST'', url = base_url c @ ''/session'', params = None,
                 json = Some (PDict (login_data c)), headers = None\<rparr>;
          w' = w\<lparr>peer := snd (net (peer w) req), sent := sent w @ [req]\<rparr>
      in case fst (net (peer w) req) of
           None \<Rightarrow> (Inl RequestException, c, w')
         | Some r \<Rightarrow>
             (let c' = c\<lparr>cookies := dict_update (cookies c) (set_cookies r)\<rparr>
              in if 400 \<le> status_code r \<and> status_code r < 600
                 then (Inl (HTTPError (status_code r)), c', w')
                 else (case body r of
                         None \<Rightarrow> (Inl JSONDecodeError, c', w')
                       | Some j \<Rightarrow> (Inr j, c', save_session c' w'))))"
  by (simp add: login_def make_request_def request_cases lstrip_slash_def login_data_def Let_def
        split: option.splits)

text \<open>
  C4, as amended. \<^verbatim>\<open>login\<close> sends one request: a POST to the session endpoint with
  the credential body of fixed shape. When the transport fails, when the status is from
  400 to 599, or when the body is not JSON, the error reaches the caller and the files are
  as before. Otherwise the parsed body is returned and the cookie jar is written to the
  session file (unless the write is refused, which is only logged).
\<close>

theorem login_persists_on_success:
  "\<exists>res c' w'.
     login net c w = (res, c', w') \<and>
     sent w' = sent w @
       [\<lparr>http_method = ''POST'', url = base_url c @ ''/session'', params = None,
         json = Some (PDict [(''type'', PStr ''apiKeyCredentials''),
                             (''keyId'', PStr (key_id c)),
                             (''keyValue'', PStr (key_value c)),
                             (''clientIdentifier'', PStr (client_id c)),
                             (''timeout'', PInt 300)]),
         headers = None\<rparr>] \<and>
     (case fst (net (peer w)
              \<lparr>http_method = ''POST'', url = base_url c @ ''/session'', params = None,
               json = Some (PDict [(''type'', PStr ''apiKeyCredentials''),
                                   (''keyId'', PStr (key_id c)),
                                   (''keyValue'', PStr (key_value c)),
                                   (''clientIdentifier'', PStr (client_id c)),
                                   (''timeout'', PInt 300)]),
               headers = None\<rparr>) of
        None \<Rightarrow> res = Inl RequestException \<and> files w' = files w
      | Some r \<Rightarrow>
          if 400 \<le> status_code r \<and> status_code r < 600
          then res = Inl (HTTPError (status_code r)) \<and> files w' = files w
          else (case body r of
                  None \<Rightarrow> res = Inl JSONDecodeError \<and> files w' = files w
                | Some j \<Rightarrow>
                    res = Inr j \<and>
                    files w' =
                      (if refused w OpWrite (session_file c) then files w
                       else AList.update (session_file c) (Pickled (cookies c')) (files w))))"
proof -
  obtain res c' w' where L: "login net c w = (res, c', w')"
    using prod_cases3 by blast
  let ?req = "\<lparr>http_method = ''POST'', url = base_url c @ ''/session'', params = None,
         json = Some (PDict [(''type'', PStr ''apiKeyCredentials''),
                             (''keyId'', PStr (key_id c)),
                             (''keyValue'', PStr (key_value c)),
                             (''clientIdentifier'', PStr (client_id c)),
                             (''timeout'', PInt 300)]),
         headers = None\<rparr>"
  have S: "sent w' = sent w @ [?req]"
    using L
    by (auto simp: login_cases login_data_def Let_def save_session_def
          split: option.splits if_splits)
  have F: "(case fst (net (peer w) ?req) of
        None \<Rightarrow> res = Inl RequestException \<and> files w' = files w
      | Some r \<Rightarrow>
          if 400 \<le> status_code r \<and> status_code r < 600
          then res = Inl (HTTPError (status_code r)) \<and> files w' = files w
          else (case body r of
                  None \<Rightarrow> res = Inl JSONDecodeError \<and> files w' = files w
                | Some j \<Rightarrow>
                    res = Inr j \<and>
                    files w' =
                      (if refused w OpWrite (session_file c) then files w
                       else AList.update (session_file c) (Pickled (cookies c')) (files w))))"
    using L
    by (auto simp: login_cases login_data_def Let_def save_session_def refused_def
          split: option.splits if_splits)
  from L S F show ?thesis by blast
qed

theorem login_status_300_counterexample:
  "login scripted test_client
     (test_world [\<lparr>status_code = 300, body = Some (PDict []),
                   set_cookies = [(''JSESSIONID'', ''abc'')]\<rparr>] []) =
   (Inr (PDict []),
    test_client\<lparr>cookies := [(''JSESSIONID'', ''abc'')]\<rparr>,
    \<lparr>peer = [],
     sent = [\<lparr>http_method = ''POST'', url = ''https://test.api.com/api/session'',
              params = None,
              json = Some (PDict [(''type'', PStr ''apiKeyCredentials''),
                                  (''keyId'', PStr ''test-key-id''),
                                  (''keyValue'', PStr ''test-key-value''),
                                  (''clientIdentifier'', PStr ''test-client''),
                                  (''timeout'', PInt 300)]),
              headers = None\<rparr>],
     files = [(''.session'', Pickled [(''JSESSIONID'', ''abc'')])],
     denied = []\<rparr>)"
  by (simp add: login_def make_request_def request_def session_request_def Let_def
        raise_for_status_def login_data_def lstrip_slash_def save_session_def refused_def
        test_client_def test_world_def scripted_def dict_update_def)

lemma dict_update_Cons: "dict_update d ((k, v) # e) = dict_update (AList.update k v d) e"
  by (simp add: dict_update_def)

text \<open>
  C8. The constructor at the failing input: with the three credentials given and no base
  URL, neither as an argument nor in the environment, it raises \<^verbatim>\<open>AttributeError\<close>
  from \<^verbatim>\<open>None.rstrip\<close>, where a missing key id raises the \<^verbatim>\<open>ValueError\<close> that
  names the setting; and with the variable \<^verbatim>\<open>CV_CUE_BASE_URL\<close> set to the empty string
  it builds a client whose base URL is empty.
\<close>

theorem init_without_base_url:
  "CVCueClient_init [] (Some ''id'') (Some ''value'') (Some ''client'') None None w =
     (Inl (AttributeError (quoted ''NoneType'' @ '' object has no attribute '' @ quoted ''rstrip'')), w) \<and>
   CVCueClient_init [] None (Some ''value'') (Some ''client'') (Some ''https://test.api.com'') None w =
     (Inl (ValueError (missing_msg ''CV-CUE API key ID'' ''CV_CUE_KEY_ID'')), w) \<and>
   CVCueClient_init [(''CV_CUE_BASE_URL'', '''')] (Some ''id'') (Some ''value'') (Some ''client'') None
       (Some ''.session'') (w\<lparr>files := []\<rparr>) =
     (Inr \<lparr>key_id = ''id'', key_value = ''value'', client_id = ''client'', base_url = '''',
           session_file = ''.session'', cookies = []\<rparr>, w\<lparr>files := []\<rparr>)"
  by (simp add: CVCueClient_init_def py_or_def py_not_def getenv_def load_session_def
      rstrip_slash_def Let_def)

text \<open>
  C9. The request that \<^verbatim>\<open>list_aps\<close> sends has no body, and its headers are the
  \<^verbatim>\<open>Version\<close> header alone, without \<^verbatim>\<open>Content-Type\<close>; a call of \<^verbatim>\<open>request\<close>
  with no body and no headers does carry \<^verbatim>\<open>Content-Type: application/json\<close>.
\<close>

theorem list_aps_request_headers:
  "(\<exists>res c' w'.
      list_aps net c w a = (res, c', w') \<and>
      sent w' = sent w @
        [\<lparr>http_method = ''GET'', url = base_url c @ ''/manageddevices/aps'',
          params = Some (list_aps_params a), json = None,
          headers = Some [(''Version'', ''19'')]\<rparr>]) \<and>
   map_of [(''Version'', ''19'')] ''Content-Type'' = None \<and>
   (\<exists>res c' w'.
      request net c w meth path kp None None = (res, c', w') \<and>
      sent w' = sent w @
        [\<lparr>http_method = meth, url = base_url c @ path, params = kp, json = None,
          headers = Some [(''Content-Type'', ''application/json'')]\<rparr>])"
  by (auto simp: list_aps_def resource_request_def request_cases Let_def
        split: prod.splits option.splits sum.splits)

text \<open>
  C10, as amended. When no extra keyword argument is named \<^verbatim>\<open>operator\<close>: with a
  builder that holds a filter, the \<^verbatim>\<open>operator\<close> parameter of the request is the
  builder's own operator and the parameters do not depend on \<^verbatim>\<open>filter_operator\<close>;
  with a list of filters it is \<^verbatim>\<open>filter_operator\<close>.
\<close>

theorem list_aps_operator_param:
  assumes "''operator'' \<notin> fst ` set (kwargs a)"
  shows "(\<forall>fb. filters_opt a = Some (Builder fb) \<longrightarrow> filters fb \<noteq> [] \<longrightarrow>
            map_of (list_aps_params a) ''operator'' = Some (PStr (fb_operator fb)) \<and>
            (\<forall>x. list_aps_params (a\<lparr>filter_operator := x\<rparr>) = list_aps_params a)) \<and>
         (\<forall>fs. filters_opt a = Some (FilterList fs) \<longrightarrow>
            map_of (list_aps_params a) ''operator'' = Some (PStr (filter_operator a))) \<and>
         (\<exists>res c' w'. list_aps net c w a = (res, c', w') \<and>
            sent w' = sent w @
              [\<lparr>http_method = ''GET'', url = base_url c @ ''/manageddevices/aps'',
                params = Some (list_aps_params a), json = None,
                headers = Some [(''Version'', ''19'')]\<rparr>])"
proof (intro conjI allI impI)
  fix fb assume fb: "filters_opt a = Some (Builder fb)" "filters fb \<noteq> []"
  show "map_of (list_aps_params a) ''operator'' = Some (PStr (fb_operator fb))"
    using assms fb
    by (simp add: list_aps_params_def Let_def map_of_dict_update_other to_params_def
          dict_update_Cons update_conv')
  show "list_aps_params (a\<lparr>filter_operator := x\<rparr>) = list_aps_params a" for x
    using fb by (simp add: list_aps_params_def Let_def)
next
  fix fs assume "filters_opt a = Some (FilterList fs)"
  then show "map_of (list_aps_params a) ''operator'' = Some (PStr (filter_operator a))"
    using assms
    by (simp add: list_aps_params_def Let_def map_of_dict_update_other update_conv')
next
  show "\<exists>res c' w'. list_aps net c w a = (res, c', w') \<and>
            sent w' = sent w @
              [\<lparr>http_method = ''GET'', url = base_url c @ ''/manageddevices/aps'',
                params = Some (list_aps_params a), json = None,
                headers = Some [(''Version'', ''19'')]\<rparr>]"
    by (auto simp: list_aps_def resource_request_def request_def session_request_def Let_def
        split: prod.splits option.splits sum.splits)
qed

theorem list_aps_operator_param_witness:
  "''operator'' \<notin> fst ` set (kwargs list_aps_defaults) \<and>
   map_of (list_aps_params
      (list_aps_defaults
         \<lparr>filters_opt :=
            Some (Builder \<lparr>filters = [\<lparr>property = ''name'', operator = ''contains'',
                                          val = [PStr ''Arista'']\<rparr>],
                           fb_operator = ''OR''\<rparr>),
          filter_operator := ''AND''\<rparr>)) ''operator'' = Some (PStr ''OR'') \<and>
   map_of (list_aps_params
      (list_aps_defaults
         \<lparr>filters_opt :=
            Some (FilterList [\<lparr>property = ''name'', operator = ''contains'',
                                val = [PStr ''Arista'']\<rparr>]),
          filter_operator := ''OR''\<rparr>)) ''operator'' = Some (PStr ''OR'')"
  using list_aps_operator_param
      [of "list_aps_defaults
         \<lparr>filters_opt :=
            Some (Builder \<lparr>filters = [\<lparr>property = ''name'', operator = ''contains'',
                                          val = [PStr ''Arista'']\<rparr>],
                           fb_operator = ''OR''\<rparr>),
          filter_operator := ''AND''\<rparr>" scripted test_client "test_world [] []"]
    list_aps_operator_param
      [of "list_aps_defaults
         \<lparr>filters_opt :=
            Some (FilterList [\<lparr>property = ''name'', operator = ''contains'',
                                val = [PStr ''Arista'']\<rparr>]),
          filter_operator := ''OR''\<rparr>" scripted test_client "test_world [] []"]
  by (simp add: list_aps_defaults_def)

theorem list_aps_operator_kwarg_counterexample:
  "map_of (list_aps_params
      (list_aps_defaults
         \<lparr>filters_opt :=
            Some (FilterList [\<lparr>property = ''name'', operator = ''contains'',
                                val = [PStr ''Arista'']\<rparr>]),
          filter_operator := ''AND'',
          kwargs := [(''operator'', PStr ''OR'')]\<rparr>)) ''operator'' = Some (PStr ''OR'')"
  by (simp add: list_aps_params_def list_aps_defaults_def dict_update_def Let_def)

lemma list_aps_scripted_page:
  assumes "peer w = page p # rest"
    and "\<not> (400 \<le> page_status p \<and> page_status p < 600)"
  shows "list_aps scripted c w a =
           (Inr (PDict (AList.update ''managedDevices'' (PList (page_items p)) (page_extra p))),
            c\<lparr>cookies := dict_update (cookies c) (page_cookies p)\<rparr>,
            w\<lparr>peer := rest, sent := sent w @ [list_aps_request (base_url c) a]\<rparr>)"
  using assms
  by (simp add: list_aps_def resource_request_def request_cases scripted_def page_def
        list_aps_request_def Let_def)

lemma get_managedDevices_page:
  "get_managedDevices (PDict (AList.update ''managedDevices'' (PList xs) extra)) = Inr (PList xs)"
  by (simp add: get_managedDevices_def update_conv')

lemma bind_list_aps_call_args:
  assumes "''startindex'' \<notin> fst ` set kw" and "''totalcountrequired'' \<notin> fst ` set kw"
  shows "bind_list_aps si ps fs fop kw = Inr (call_args si ps fs fop kw)"
  using assms
  by (simp add: bind_list_aps_def call_args_def list_aps_defaults_def bound_names_def)

lemma upt_Suc_shift: "[0..<Suc (Suc n)] = 0 # map Suc [0..<Suc n]"
  by (subst map_Suc_upt) (rule upt_conv_Cons, simp)

lemma loop_scripted:
  assumes kw: "''startindex'' \<notin> fst ` set kw" "''totalcountrequired'' \<notin> fst ` set kw"
    and full: "\<forall>p \<in> set full. \<not> (400 \<le> page_status p \<and> page_status p < 600) \<and>
                 page_items p \<noteq> [] \<and> \<not> int (length (page_items p)) < ps"
    and lastp: "\<not> (400 \<le> page_status lastp \<and> page_status lastp < 600)"
               "page_items lastp = [] \<or> int (length (page_items lastp)) < ps"
    and peer: "peer w = map page (full @ [lastp]) @ rest"
  shows "get_all_aps_loop scripted ps fs fop kw acc si c w =
           Some (Inr (acc @ concat (map page_items full) @ page_items lastp),
                 c\<lparr>cookies := fold (\<lambda>p ck. dict_update ck (page_cookies p)) (full @ [lastp])
                                 (cookies c)\<rparr>,
                 w\<lparr>peer := rest,
                   sent := sent w @
                     map (\<lambda>i. list_aps_request (base_url c)
                                (call_args (si + int i * ps) ps fs fop kw))
                       [0..<Suc (length full)]\<rparr>)"
  using full peer
proof (induction full arbitrary: acc si c w)
  case Nil
  note b = bind_list_aps_call_args [OF kw, of si ps fs fop]
  from Nil have p: "peer w = page lastp # rest" by simp
  show ?case
    using lastp(2)
    by (subst get_all_aps_loop.simps)
       (auto simp: b list_aps_scripted_page [OF p lastp(1)] get_managedDevices_page
          py_items_def)
next
  case (Cons p full)
  note b = bind_list_aps_call_args [OF kw, of si ps fs fop]
  from Cons.prems have p: "peer w = page p # (map page (full @ [lastp]) @ rest)" by simp
  from Cons.prems have pfull: "\<not> (400 \<le> page_status p \<and> page_status p < 600)"
    "page_items p \<noteq> []" "\<not> int (length (page_items p)) < ps" by auto
  let ?c1 = "c\<lparr>cookies := dict_update (cookies c) (page_cookies p)\<rparr>"
  let ?w1 = "w\<lparr>peer := map page (full @ [lastp]) @ rest,
               sent := sent w @ [list_aps_request (base_url c) (call_args si ps fs fop kw)]\<rparr>"
  have step: "get_all_aps_loop scripted ps fs fop kw acc si c w =
              get_all_aps_loop scripted ps fs fop kw (acc @ page_items p) (si + ps) ?c1 ?w1"
    using pfull(2,3)
    by (subst get_all_aps_loop.simps)
       (simp add: b list_aps_scripted_page [OF p pfull(1)] get_managedDevices_page
          py_items_def)
  have IH: "get_all_aps_loop scripted ps fs fop kw (acc @ page_items p) (si + ps) ?c1 ?w1 =
           Some (Inr ((acc @ page_items p) @ concat (map page_items full) @ page_items lastp),
                 ?c1\<lparr>cookies := fold (\<lambda>p ck. dict_update ck (page_cookies p)) (full @ [lastp])
                                 (cookies ?c1)\<rparr>,
                 ?w1\<lparr>peer := rest,
                   sent := sent ?w1 @
                     map (\<lambda>i. list_aps_request (base_url ?c1)
                                (call_args ((si + ps) + int i * ps) ps fs fop kw))
                       [0..<Suc (length full)]\<rparr>)"
    using Cons.prems by (intro Cons.IH) auto
  have idx: "map (\<lambda>i. list_aps_request (base_url c) (call_args (si + int i * ps) ps fs fop kw))
               [0..<Suc (length (p # full))] =
             list_aps_request (base_url c) (call_args si ps fs fop kw) #
             map (\<lambda>i. list_aps_request (base_url c)
                        (call_args ((si + ps) + int i * ps) ps fs fop kw))
               [0..<Suc (length full)]"
    unfolding length_Cons upt_Suc_shift
    by (simp add: algebra_simps comp_def del: upt_Suc)
  show ?case
    unfolding step IH idx by simp
qed

lemma to_params_keys: "fst ` set (to_params fb) \<subseteq> {''operator'', ''filter''}"
  by (auto simp: to_params_def)

lemma map_of_list_aps_params_startindex:
  assumes "''startindex'' \<notin> fst ` set (kwargs a)"
  shows "map_of (list_aps_params a) ''startindex'' = Some (PInt (startindex a))"
proof -
  define p0 where "p0 = [(''startindex'', PInt (startindex a)),
                (''pagesize'', PInt (pagesize a)),
                (''totalcountrequired'', totalcountrequired a),
                (''sortby'', sortby a),
                (''ascending'', ascending a),
                (''fetchradios'', fetchradios a),
                (''populatemeshinfo'', populatemeshinfo a),
                (''populatewiredinterfaces'', populatewiredinterfaces a)]"
  define p1 where "p1 = (if locationid a \<noteq> PNone then AList.update ''locationid'' (locationid a) p0
                else p0)"
  define p2 where "p2 = (case filters_opt a of
                  None \<Rightarrow> p1
                | Some (Builder fb) \<Rightarrow> dict_update p1 (to_params fb)
                | Some (FilterList fs) \<Rightarrow>
                    AList.update ''operator'' (PStr (filter_operator a))
                      (AList.update ''filter''
                         (PList (map (\<lambda>f. PStr (Filter_str f)) fs)) p1))"
  have eq: "list_aps_params a = dict_update p2 (kwargs a)"
    unfolding list_aps_params_def p0_def p1_def p2_def Let_def by (rule refl)
  have m0: "map_of p0 ''startindex'' = Some (PInt (startindex a))"
    by (simp add: p0_def)
  have m1: "map_of p1 ''startindex'' = Some (PInt (startindex a))"
    by (simp add: p1_def m0 update_conv')
  have fb: "''startindex'' \<notin> fst ` set (to_params fb)" for fb
    using to_params_keys [of fb] by auto
  have m2: "map_of p2 ''startindex'' = Some (PInt (startindex a))"
  proof (cases "filters_opt a")
    case None
    then show ?thesis by (simp add: p2_def m1)
  next
    case (Some f)
    then show ?thesis
      by (cases f) (simp_all add: p2_def m1 update_conv' map_of_dict_update_other [OF fb])
  qed
  show ?thesis
    unfolding eq by (simp add: map_of_dict_update_other [OF assms] m2)
qed


lemma param_startindex_of_request:
  assumes "''startindex'' \<notin> fst ` set kw"
  shows "param (list_aps_request base (call_args si ps fs fop kw)) ''startindex'' =
           Some (PInt si)"
proof -
  have "''startindex'' \<notin> fst ` set (kwargs (call_args si ps fs fop kw))"
    using assms by (auto simp: call_args_def)
  from map_of_list_aps_params_startindex [OF this]
  show ?thesis
    by (simp add: param_def list_aps_request_def call_args_def)
qed

text \<open>
  C1, as amended. A call whose extra keywords name \<^verbatim>\<open>startindex\<close> or
  \<^verbatim>\<open>totalcountrequired\<close> is refused by Python with \<^verbatim>\<open>TypeError\<close> before any request.
  For every other call, the server plays a sequence of pages: pages that are not empty
  and hold at least \<^verbatim>\<open>pagesize\<close> items, then a page that is empty or shorter than
  \<^verbatim>\<open>pagesize\<close>, then anything; each page may carry other keys and cookies.
  \<^verbatim>\<open>get_all_aps\<close> returns, with the items of the pages up to and including the short
  page, in order; it sends one GET of the device list per page, the request of
  \<^verbatim>\<open>list_aps\<close> for the given page size, filters and keywords with \<^verbatim>\<open>startindex\<close> 0,
  \<^verbatim>\<open>pagesize\<close>, twice \<^verbatim>\<open>pagesize\<close> and so on, and leaves the rest of the script
  unread. An instance is the run on pages of 100, 100 and 50 devices: three requests,
  250 devices.
\<close>

theorem get_all_aps_pages:
  assumes "\<forall>p \<in> set full. \<not> (400 \<le> page_status p \<and> page_status p < 600) \<and>
             page_items p \<noteq> [] \<and> \<not> int (length (page_items p)) < ps"
    and "\<not> (400 \<le> page_status lastp \<and> page_status lastp < 600)"
    and "page_items lastp = [] \<or> int (length (page_items lastp)) < ps"
    and "peer w = map page (full @ [lastp]) @ rest"
  shows
    "((''startindex'' \<in> fst ` set kw \<or> ''totalcountrequired'' \<in> fst ` set kw) \<longrightarrow>
        (\<exists>msg. get_all_aps scripted c w ps fs fop kw = Some (Inl (TypeError msg), c, w))) \<and>
     ((''startindex'' \<notin> fst ` set kw \<and> ''totalcountrequired'' \<notin> fst ` set kw) \<longrightarrow>
        (\<exists>reqs.
           get_all_aps scripted c w ps fs fop kw =
             Some (Inr (concat (map page_items full) @ page_items lastp),
                   c\<lparr>cookies := fold (\<lambda>p ck. dict_update ck (page_cookies p)) (full @ [lastp])
                                   (cookies c)\<rparr>,
                   w\<lparr>peer := rest, sent := sent w @ reqs\<rparr>) \<and>
           length reqs = Suc (length full) \<and>
           (\<forall>i < Suc (length full).
              reqs ! i =
                \<lparr>http_method = ''GET'', url = base_url c @ ''/manageddevices/aps'',
                  params = Some (list_aps_params
                    \<lparr>startindex = int i * ps, pagesize = ps,
                     totalcountrequired = PBool False,
                     locationid = kw_get kw ''locationid'' PNone,
                     sortby = kw_get kw ''sortby'' (PStr ''boxid''),
                     ascending = kw_get kw ''ascending'' (PBool True),
                     fetchradios = kw_get kw ''fetchradios'' (PBool True),
                     populatemeshinfo = kw_get kw ''populatemeshinfo'' (PBool False),
                     populatewiredinterfaces =
                       kw_get kw ''populatewiredinterfaces'' (PBool False),
                     filters_opt = fs, filter_operator = fop,
                     kwargs =
                       filter (\<lambda>kv. fst kv \<notin> set [''locationid'', ''sortby'', ''ascending'',
                                   ''fetchradios'', ''populatemeshinfo'',
                                   ''populatewiredinterfaces'']) kw\<rparr>),
                  json = None, headers = Some [(''Version'', ''19'')]\<rparr> \<and>
              param (reqs ! i) ''startindex'' = Some (PInt (int i * ps)))))"
proof (intro conjI impI)
  assume "''startindex'' \<in> fst ` set kw \<or> ''totalcountrequired'' \<in> fst ` set kw"
  then show "\<exists>msg. get_all_aps scripted c w ps fs fop kw = Some (Inl (TypeError msg), c, w)"
    unfolding get_all_aps_def
    by (subst get_all_aps_loop.simps) (auto simp: bind_list_aps_def)
next
  assume kw: "''startindex'' \<notin> fst ` set kw \<and> ''totalcountrequired'' \<notin> fst ` set kw"
  define reqs where
    "reqs = map (\<lambda>i. list_aps_request (base_url c) (call_args (0 + int i * ps) ps fs fop kw))
              [0..<Suc (length full)]"
  have "get_all_aps scripted c w ps fs fop kw =
          Some (Inr ([] @ concat (map page_items full) @ page_items lastp),
                c\<lparr>cookies := fold (\<lambda>p ck. dict_update ck (page_cookies p)) (full @ [lastp])
                                (cookies c)\<rparr>,
                w\<lparr>peer := rest, sent := sent w @ reqs\<rparr>)"
    unfolding get_all_aps_def reqs_def
    using kw by (intro loop_scripted assms) simp_all
  then have run: "get_all_aps scripted c w ps fs fop kw =
          Some (Inr (concat (map page_items full) @ page_items lastp),
                c\<lparr>cookies := fold (\<lambda>p ck. dict_update ck (page_cookies p)) (full @ [lastp])
                                (cookies c)\<rparr>,
                w\<lparr>peer := rest, sent := sent w @ reqs\<rparr>)"
    by (simp only: append_Nil)
  have len: "length reqs = Suc (length full)"
    by (simp add: reqs_def del: upt_Suc)
  have nth: "reqs ! i = list_aps_request (base_url c) (call_args (int i * ps) ps fs fop kw)"
    if "i < Suc (length full)" for i
    using that unfolding reqs_def by (simp del: upt_Suc)
  have each: "reqs ! i =
                \<lparr>http_method = ''GET'', url = base_url c @ ''/manageddevices/aps'',
                  params = Some (list_aps_params
                    \<lparr>startindex = int i * ps, pagesize = ps,
                     totalcountrequired = PBool False,
                     locationid = kw_get kw ''locationid'' PNone,
                     sortby = kw_get kw ''sortby'' (PStr ''boxid''),
                     ascending = kw_get kw ''ascending'' (PBool True),
                     fetchradios = kw_get kw ''fetchradios'' (PBool True),
                     populatemeshinfo = kw_get kw ''populatemeshinfo'' (PBool False),
                     populatewiredinterfaces =
                       kw_get kw ''populatewiredinterfaces'' (PBool False),
                     filters_opt = fs, filter_operator = fop,
                     kwargs =
                       filter (\<lambda>kv. fst kv \<notin> set [''locationid'', ''sortby'', ''ascending'',
                                   ''fetchradios'', ''populatemeshinfo'',
                                   ''populatewiredinterfaces'']) kw\<rparr>),
                  json = None, headers = Some [(''Version'', ''19'')]\<rparr> \<and>
              param (reqs ! i) ''startindex'' = Some (PInt (int i * ps))"
    if "i < Suc (length full)" for i
    unfolding nth [OF that]
    using kw
    by (simp add: param_startindex_of_request) (simp add: list_aps_request_def call_args_def)
  have all: "(\<forall>i < Suc (length full).
              reqs ! i =
                \<lparr>http_method = ''GET'', url = base_url c @ ''/manageddevices/aps'',
                  params = Some (list_aps_params
                    \<lparr>startindex = int i * ps, pagesize = ps,
                     totalcountrequired = PBool False,
                     locationid = kw_get kw ''locationid'' PNone,
                     sortby = kw_get kw ''sortby'' (PStr ''boxid''),
                     ascending = kw_get kw ''ascending'' (PBool True),
                     fetchradios = kw_get kw ''fetchradios'' (PBool True),
                     populatemeshinfo = kw_get kw ''populatemeshinfo'' (PBool False),
                     populatewiredinterfaces =
                       kw_get kw ''populatewiredinterfaces'' (PBool False),
                     filters_opt = fs, filter_operator = fop,
                     kwargs =
                       filter (\<lambda>kv. fst kv \<notin> set [''locationid'', ''sortby'', ''ascending'',
                                   ''fetchradios'', ''populatemeshinfo'',
                                   ''populatewiredinterfaces'']) kw\<rparr>),
                  json = None, headers = Some [(''Version'', ''19'')]\<rparr> \<and>
              param (reqs ! i) ''startindex'' = Some (PInt (int i * ps)))"
    by (intro allI impI) (rule each)
  show "\<exists>reqs.
           get_all_aps scripted c w ps fs fop kw =
             Some (Inr (concat (map page_items full) @ page_items lastp),
                   c\<lparr>cookies := fold (\<lambda>p ck. dict_update ck (page_cookies p)) (full @ [lastp])
                                   (cookies c)\<rparr>,
                   w\<lparr>peer := rest, sent := sent w @ reqs\<rparr>) \<and>
           length reqs = Suc (length full) \<and>
           (\<forall>i < Suc (length full).
              reqs ! i =
                \<lparr>http_method = ''GET'', url = base_url c @ ''/manageddevices/aps'',
                  params = Some (list_aps_params
                    \<lparr>startindex = int i * ps, pagesize = ps,
                     totalcountrequired = PBool False,
                     locationid = kw_get kw ''locationid'' PNone,
                     sortby = kw_get kw ''sortby'' (PStr ''boxid''),
                     ascending = kw_get kw ''ascending'' (PBool True),
                     fetchradios = kw_get kw ''fetchradios'' (PBool True),
                     populatemeshinfo = kw_get kw ''populatemeshinfo'' (PBool False),
                     populatewiredinterfaces =
                       kw_get kw ''populatewiredinterfaces'' (PBool False),
                     filters_opt = fs, filter_operator = fop,
                     kwargs =
                       filter (\<lambda>kv. fst kv \<notin> set [''locationid'', ''sortby'', ''ascending'',
                                   ''fetchradios'', ''populatemeshinfo'',
                                   ''populatewiredinterfaces'']) kw\<rparr>),
                  json = None, headers = Some [(''Version'', ''19'')]\<rparr> \<and>
              param (reqs ! i) ''startindex'' = Some (PInt (int i * ps)))"
    by (rule exI [of _ reqs]) (intro conjI run len all)
qed

lemma length_devices: "length (devices m n) = n - m"
  by (simp add: devices_def)

lemma devices_nonempty: "m < n \<Longrightarrow> devices m n \<noteq> []"
  by (simp add: devices_def)

lemma devices_append: "m \<le> n \<Longrightarrow> n \<le> k \<Longrightarrow> devices m n @ devices n k = devices m k"
  unfolding devices_def map_append [symmetric]
  by (metis le_Suc_ex upt_add_eq_append)

lemma list_of_three: "length xs = Suc (Suc (Suc 0)) \<Longrightarrow> xs = [xs ! 0, xs ! 1, xs ! 2]"
  by (auto simp: length_Suc_conv)

theorem get_all_aps_pages_witness:
  "\<exists>w'. get_all_aps scripted test_client
           (test_world [page (test_page 0 100), page (test_page 100 200),
                        page (test_page 200 250)] [])
           100 None ''AND'' [] =
         Some (Inr (devices 0 250), test_client, w') \<and>
        length (devices 0 250) = 250 \<and>
        peer w' = [] \<and>
        map (\<lambda>r. param r ''startindex'') (sent w') =
          [Some (PInt 0), Some (PInt 100), Some (PInt 200)] \<and>
        params (hd (sent w')) =
          Some [(''startindex'', PInt 0), (''pagesize'', PInt 100),
                (''totalcountrequired'', PBool False), (''sortby'', PStr ''boxid''),
                (''ascending'', PBool True), (''fetchradios'', PBool True),
                (''populatemeshinfo'', PBool False),
                (''populatewiredinterfaces'', PBool False)]"
proof -
  let ?w = "(test_world [page (test_page 0 100), page (test_page 100 200),
                        page (test_page 200 250)] [])"
  have h1: "\<forall>p \<in> set [test_page 0 100, test_page 100 200].
              \<not> (400 \<le> page_status p \<and> page_status p < 600) \<and>
              page_items p \<noteq> [] \<and> \<not> int (length (page_items p)) < 100"
    by (simp add: test_page_def length_devices devices_nonempty)
  have h2: "\<not> (400 \<le> page_status (test_page 200 250) \<and> page_status (test_page 200 250) < 600)"
    by (simp add: test_page_def)
  have h3: "page_items (test_page 200 250) = [] \<or>
            int (length (page_items (test_page 200 250))) < 100"
    by (simp add: test_page_def length_devices)
  have h4: "peer ?w = map page ([test_page 0 100, test_page 100 200] @ [test_page 200 250]) @ []"
    by (simp add: test_world_def)
  have kw: "''startindex'' \<notin> fst ` set ([] :: pydict) \<and>
            ''totalcountrequired'' \<notin> fst ` set ([] :: pydict)"
    by simp
  from get_all_aps_pages [OF h1 h2 h3 h4, of "[]" test_client None "''AND''",
      THEN conjunct2, THEN mp, OF kw]
  obtain reqs where
    run: "get_all_aps scripted test_client ?w 100 None ''AND'' [] =
            Some (Inr (concat (map page_items [test_page 0 100, test_page 100 200]) @
                       page_items (test_page 200 250)),
                  test_client
                    \<lparr>cookies := fold (\<lambda>p ck. dict_update ck (page_cookies p))
                                  ([test_page 0 100, test_page 100 200] @ [test_page 200 250])
                                  (cookies test_client)\<rparr>,
                  ?w\<lparr>peer := [], sent := sent ?w @ reqs\<rparr>)"
    and len: "length reqs = Suc (length [test_page 0 100, test_page 100 200])"
    and each: "\<forall>i < Suc (length [test_page 0 100, test_page 100 200]).
              reqs ! i =
                \<lparr>http_method = ''GET'', url = base_url test_client @ ''/manageddevices/aps'',
                  params = Some (list_aps_params
                    \<lparr>startindex = int i * 100, pagesize = 100,
                     totalcountrequired = PBool False,
                     locationid = kw_get [] ''locationid'' PNone,
                     sortby = kw_get [] ''sortby'' (PStr ''boxid''),
                     ascending = kw_get [] ''ascending'' (PBool True),
                     fetchradios = kw_get [] ''fetchradios'' (PBool True),
                     populatemeshinfo = kw_get [] ''populatemeshinfo'' (PBool False),
                     populatewiredinterfaces =
                       kw_get [] ''populatewiredinterfaces'' (PBool False),
                     filters_opt = None, filter_operator = ''AND'',
                     kwargs =
                       filter (\<lambda>kv. fst kv \<notin> set [''locationid'', ''sortby'', ''ascending'',
                                   ''fetchradios'', ''populatemeshinfo'',
                                   ''populatewiredinterfaces'']) []\<rparr>),
                  json = None, headers = Some [(''Version'', ''19'')]\<rparr> \<and>
              param (reqs ! i) ''startindex'' = Some (PInt (int i * 100))"
    by (elim exE conjE)
  have items: "concat (map page_items [test_page 0 100, test_page 100 200]) @
               page_items (test_page 200 250) = devices 0 250"
    by (simp add: test_page_def devices_append)
  have jar: "test_client
               \<lparr>cookies := fold (\<lambda>p ck. dict_update ck (page_cookies p))
                             ([test_page 0 100, test_page 100 200] @ [test_page 200 250])
                             (cookies test_client)\<rparr> = test_client"
    by (simp add: test_page_def test_client_def)
  define w' where "w' = ?w\<lparr>peer := [], sent := sent ?w @ reqs\<rparr>"
  have a: "get_all_aps scripted test_client ?w 100 None ''AND'' [] =
             Some (Inr (devices 0 250), test_client, w')"
    using run unfolding items jar w'_def .
  have n: "length (devices 0 250) = 250"
    by (simp add: length_devices)
  have b: "peer w' = []"
    by (simp add: w'_def)
  have s: "sent w' = reqs"
    by (simp add: w'_def test_world_def)
  have three: "reqs = [reqs ! 0, reqs ! 1, reqs ! 2]"
    using len by (intro list_of_three) simp
  have q: "param (reqs ! i) ''startindex'' = Some (PInt (int i * 100))"
    if "i < Suc (length [test_page 0 100, test_page 100 200])" for i
    using each [rule_format, OF that] by (rule conjunct2)
  have p0: "param (reqs ! 0) ''startindex'' = Some (PInt 0)"
    using q [of 0] by simp
  have l1: "1 < Suc (length [test_page 0 100, test_page 100 200])"
    and l2: "2 < Suc (length [test_page 0 100, test_page 100 200])"
    by simp_all
  have p1: "param (reqs ! 1) ''startindex'' = Some (PInt 100)"
    using q [OF l1] by simp
  have p2: "param (reqs ! 2) ''startindex'' = Some (PInt 200)"
    using q [OF l2] by simp
  have c: "map (\<lambda>r. param r ''startindex'') (sent w') =
             [Some (PInt 0), Some (PInt 100), Some (PInt 200)]"
    unfolding s by (subst three) (simp only: list.map p0 p1 p2)
  have first: "hd reqs = reqs ! 0"
    by (subst three) simp
  have lt: "0 < Suc (length [test_page 0 100, test_page 100 200])"
    by simp
  have d: "params (hd (sent w')) =
          Some [(''startindex'', PInt 0), (''pagesize'', PInt 100),
                (''totalcountrequired'', PBool False), (''sortby'', PStr ''boxid''),
                (''ascending'', PBool True), (''fetchradios'', PBool True),
                (''populatemeshinfo'', PBool False),
                (''populatewiredinterfaces'', PBool False)]"
    unfolding s first each [rule_format, OF lt, THEN conjunct1]
    by (simp add: list_aps_params_def kw_get_def Let_def)
  show ?thesis
    by (rule exI [of _ w']) (intro conjI a n b c d)
qed

theorem get_all_aps_startindex_keyword_counterexample:
  "get_all_aps scripted test_client (test_world [page (test_page 0 50)] [])
       100 None ''AND'' [(''startindex'', PInt 5)] =
     Some (Inl (TypeError ''got multiple values for keyword argument startindex''),
           test_client, test_world [page (test_page 0 50)] [])"
  unfolding get_all_aps_def
  by (subst get_all_aps_loop.simps) (simp add: bind_list_aps_def)

end
